theory Spec2Isabelle
  imports Complex_Main "HOL-Library.Sublist" "HOL-Library.AList"
begin

section \<open>The demonstration client \<open>examples/python_mcp_client.py\<close>\<close>

text \<open>
  The script is one coroutine, \<open>main\<close>: it builds the launch configuration of the server
  subprocess, opens the stdio transport and a client session on it (two nested
  \<open>async with\<close> blocks), performs the handshake, lists the tools and calls three tools with
  literal arguments, printing as it goes.

  Strings are modelled as their UTF-8 byte sequences, which is what \<open>print\<close> writes to a
  UTF-8 console: an emoji of the source is three or four \<open>char\<close>s here.
\<close>

subsection \<open>Data\<close>

text \<open>The process environment read by \<open>os.getenv\<close>: a dictionary from names to values.\<close>

type_synonym environ = "string \<rightharpoonup> string"

definition getenv :: "environ \<Rightarrow> string \<Rightarrow> string \<Rightarrow> string" where
  "getenv environ key dflt = (case environ key of None \<Rightarrow> dflt | Some v \<Rightarrow> v)"

text \<open>
  \<open>StdioServerParameters(command=..., args=..., env=...)\<close>. The \<open>env\<close> dictionary is kept
  as an association list in the order of the literal, so that its entries can be counted.
\<close>

record server_params =
  command :: string
  args :: "string list"
  env :: "(string \<times> string) list"

text \<open>
  The value of an argument of a tool call: the literals of the source are strings and the
  float \<open>0.5\<close>, which binary floating point represents exactly, so it denotes the
  rational one half.
\<close>

datatype arg_value = Str string | Float rat

type_synonym arguments = "(string \<times> arg_value) list"

text \<open>
  Modelled from the spec: the result types of the SDK, which the repository only imports.
  The spec gives them as \<open>list_tools() -> [{name, description}]\<close> and
  \<open>call_tool(name, arguments) -> { content: [{ text }, ...] }\<close>.
\<close>

record tool =
  name :: string
  description :: string

record list_tools_result =
  tools :: "tool list"

datatype text_content = TextContent (text_of: string)

record call_tool_result =
  content :: "text_content list"

text \<open>
  An exception: one raised by the SDK (connecting, handshake, a request), identified by a
  label, or the \<open>IndexError\<close> that the subscript \<open>result.content[0]\<close> of the driver raises,
  or an exception group, which holds a message and the exceptions it wraps.
\<close>

datatype exn = SdkError string | IndexError | ExceptionGroup string "exn list"

subsection \<open>The launch configuration (lines 16 to 24)\<close>

definition default_rpc_url :: string where
  "default_rpc_url = ''https://eth.llamarpc.com''"

definition default_private_key :: string where
  "default_private_key = ''0000000000000000000000000000000000000000000000000000000000000001''"

definition make_server_params :: "environ \<Rightarrow> server_params" where
  "make_server_params environ =
     \<lparr> command = ''cargo'',
       args = [''run'', ''--release''],
       env = [ (''ETH_RPC_URL'', getenv environ ''ETH_RPC_URL'' default_rpc_url),
               (''PRIVATE_KEY'', getenv environ ''PRIVATE_KEY'' default_private_key),
               (''CHAIN_ID'', ''1'') ] \<rparr>"

text \<open>Reading a key of the \<open>env\<close> dictionary of a launch configuration.\<close>

definition env_value :: "server_params \<Rightarrow> string \<Rightarrow> string option" where
  "env_value p key = map_of (env p) key"

text \<open>What the spec calls a hex string of fixed length, and a numeric identifier.\<close>

definition is_hex_digit :: "char \<Rightarrow> bool" where
  "is_hex_digit c = (c \<in> set ''0123456789abcdefABCDEF'')"

definition is_hex_key :: "string \<Rightarrow> bool" where
  "is_hex_key s = (length s = 64 \<and> list_all is_hex_digit s)"

definition is_numeric :: "string \<Rightarrow> bool" where
  "is_numeric s = (s \<noteq> [] \<and> list_all (\<lambda>c. c \<in> set ''0123456789'') s)"

subsection \<open>The SDK as a parameter\<close>

text \<open>
  The transport and the session come from the SDK, which is not part of the repository, so
  the driver is modelled over any implementation of them: a record of the operations the
  script uses, each a function on a state \<open>'w\<close> of the remote side (the subprocess and
  the SDK's bookkeeping), which may answer differently at every request.
  \<open>stdio_client\<close> and \<open>client_session\<close> are the entries (\<open>__aenter__\<close>) of the two
  context managers; they and \<open>initialize\<close> return nothing, or raise.

  \<open>stdio_client_exit\<close> and \<open>client_session_exit\<close> are the exits (\<open>__aexit__\<close>) of the two
  context managers. An exit is given the exception that ended the block, or none, and it
  is the SDK's choice what it answers: a false value, which lets that exception go on; a
  true value, which drops it; or an exception of its own, which takes its place.
\<close>

datatype exit_answer = Falsy | Truthy | Raises exn

record 'w sdk =
  stdio_client :: "server_params \<Rightarrow> 'w \<Rightarrow> exn option \<times> 'w"
  stdio_client_exit :: "exn option \<Rightarrow> 'w \<Rightarrow> exit_answer \<times> 'w"
  client_session :: "'w \<Rightarrow> exn option \<times> 'w"
  client_session_exit :: "exn option \<Rightarrow> 'w \<Rightarrow> exit_answer \<times> 'w"
  initialize :: "'w \<Rightarrow> exn option \<times> 'w"
  list_tools :: "'w \<Rightarrow> (exn + list_tools_result) \<times> 'w"
  call_tool :: "string \<Rightarrow> arguments \<Rightarrow> 'w \<Rightarrow> (exn + call_tool_result) \<times> 'w"

text \<open>
  What a fake SDK would record: every request with the answer it got, and the release of
  the session and of the transport (the exits of the two \<open>async with\<close> blocks), each with
  the exception the exit was given and with its answer.
\<close>

datatype event =
    Connect server_params "exn option"
  | OpenSession "exn option"
  | Initialize "exn option"
  | ListTools "exn + list_tools_result"
  | CallTool string arguments "exn + call_tool_result"
  | CloseSession "exn option" exit_answer
  | CloseTransport "exn option" exit_answer

record 'w state =
  world :: 'w
  trace :: "event list"
  stdout :: string

text \<open>A step of the coroutine: it raises (\<open>Inl\<close>) or returns a value, and updates the state.\<close>

type_synonym ('w, 'a) action = "'w state \<Rightarrow> (exn + 'a) \<times> 'w state"

definition returns :: "'a \<Rightarrow> ('w, 'a) action" where
  "returns x s = (Inr x, s)"

definition raise :: "exn \<Rightarrow> ('w, 'a) action" where
  "raise e s = (Inl e, s)"

text \<open>Sequencing: an exception of the first statement skips the rest.\<close>

definition bind :: "('w, 'a) action \<Rightarrow> ('a \<Rightarrow> ('w, 'b) action) \<Rightarrow> ('w, 'b) action" where
  "bind f g s = (case f s of (Inl e, s') \<Rightarrow> (Inl e, s') | (Inr x, s') \<Rightarrow> g x s')"

text \<open>\<open>print(str)\<close> writes the string and a line feed.\<close>

definition print :: "string \<Rightarrow> ('w, unit) action" where
  "print str s = (Inr (), s\<lparr>stdout := stdout s @ str @ [CHR 0x0A]\<rparr>)"

definition unit_result :: "exn option \<Rightarrow> exn + unit" where
  "unit_result r = (case r of None \<Rightarrow> Inr () | Some e \<Rightarrow> Inl e)"

definition enter_stdio_client :: "'w sdk \<Rightarrow> server_params \<Rightarrow> ('w, unit) action" where
  "enter_stdio_client m p s =
     (case stdio_client m p (world s) of (r, w') \<Rightarrow>
        (unit_result r, s\<lparr>world := w', trace := trace s @ [Connect p r]\<rparr>))"

definition enter_client_session :: "'w sdk \<Rightarrow> ('w, unit) action" where
  "enter_client_session m s =
     (case client_session m (world s) of (r, w') \<Rightarrow>
        (unit_result r, s\<lparr>world := w', trace := trace s @ [OpenSession r]\<rparr>))"

definition session_initialize :: "'w sdk \<Rightarrow> ('w, unit) action" where
  "session_initialize m s =
     (case initialize m (world s) of (r, w') \<Rightarrow>
        (unit_result r, s\<lparr>world := w', trace := trace s @ [Initialize r]\<rparr>))"

definition session_list_tools :: "'w sdk \<Rightarrow> ('w, list_tools_result) action" where
  "session_list_tools m s =
     (case list_tools m (world s) of (r, w') \<Rightarrow>
        (r, s\<lparr>world := w', trace := trace s @ [ListTools r]\<rparr>))"

definition session_call_tool ::
    "'w sdk \<Rightarrow> string \<Rightarrow> arguments \<Rightarrow> ('w, call_tool_result) action" where
  "session_call_tool m nm arguments s =
     (case call_tool m nm arguments (world s) of (r, w') \<Rightarrow>
        (r, s\<lparr>world := w', trace := trace s @ [CallTool nm arguments r]\<rparr>))"

definition exit_stdio_client ::
    "'w sdk \<Rightarrow> exn option \<Rightarrow> 'w state \<Rightarrow> exit_answer \<times> 'w state" where
  "exit_stdio_client m given s =
     (case stdio_client_exit m given (world s) of (a, w') \<Rightarrow>
        (a, s\<lparr>world := w', trace := trace s @ [CloseTransport given a]\<rparr>))"

definition exit_client_session ::
    "'w sdk \<Rightarrow> exn option \<Rightarrow> 'w state \<Rightarrow> exit_answer \<times> 'w state" where
  "exit_client_session m given s =
     (case client_session_exit m given (world s) of (a, w') \<Rightarrow>
        (a, s\<lparr>world := w', trace := trace s @ [CloseSession given a]\<rparr>))"

text \<open>The exception of an outcome, which is what an exit is given.\<close>

fun exc_of :: "exn + unit \<Rightarrow> exn option" where
  "exc_of (Inl e) = Some e"
| "exc_of (Inr u) = None"

text \<open>
  The outcome of an \<open>async with\<close> block from the outcome of its body and the answer of the
  exit: an exception raised by the exit leaves the block; a true value drops the
  exception of the body, if there was one, and the block completes; a false value leaves
  the outcome of the body as it is.
\<close>

fun after_exit :: "exn + unit \<Rightarrow> exit_answer \<Rightarrow> exn + unit" where
  "after_exit r (Raises e) = Inl e"
| "after_exit r Truthy = Inr ()"
| "after_exit r Falsy = r"

text \<open>
  \<open>async with enter as x: body\<close>. When the entry raises, the block is skipped and the exit
  does not run. Otherwise the body runs, and the exit runs after it, whether the body
  returned or raised, and decides the outcome of the block.
\<close>

definition async_with ::
    "('w, 'a) action \<Rightarrow> (exn option \<Rightarrow> 'w state \<Rightarrow> exit_answer \<times> 'w state) \<Rightarrow>
       ('a \<Rightarrow> ('w, unit) action) \<Rightarrow> ('w, unit) action" where
  "async_with enter exit body s =
     (case enter s of
        (Inl e, s1) \<Rightarrow> (Inl e, s1)
      | (Inr x, s1) \<Rightarrow>
          (case body x s1 of (r, s2) \<Rightarrow>
             (case exit (exc_of r) s2 of (a, s3) \<Rightarrow> (after_exit r a, s3))))"

text \<open>\<open>for x in xs: f(x)\<close>.\<close>

fun for_each :: "'a list \<Rightarrow> ('a \<Rightarrow> ('w, unit) action) \<Rightarrow> ('w, unit) action" where
  "for_each [] f = returns ()"
| "for_each (x # xs) f = bind (f x) (\<lambda>_. for_each xs f)"

subsection \<open>The driver (lines 26 to 71)\<close>

definition connected_message :: string where
  "connected_message =
     [CHR 0xE2, CHR 0x9C, CHR 0x85] @ '' Connected to Ethereum Trading MCP Server'' @ [CHR 0x0A]"

definition tools_header :: string where
  "tools_header = [CHR 0xF0, CHR 0x9F, CHR 0x93, CHR 0x8B] @ '' Available tools:''"

text \<open>The f-string \<open>f"  - {tool.name}: {tool.description}"\<close>.\<close>

definition tool_line :: "tool \<Rightarrow> string" where
  "tool_line t = ''  - '' @ name t @ '': '' @ description t"

definition balance_label :: string where
  "balance_label = [CHR 0xF0, CHR 0x9F, CHR 0x94, CHR 0x8D] @ '' Getting ETH balance...''"

definition price_label :: string where
  "price_label =
     [CHR 0xF0, CHR 0x9F, CHR 0x92, CHR 0xB0] @ '' Getting UNI token price in USD...''"

definition swap_label :: string where
  "swap_label =
     [CHR 0xF0, CHR 0x9F, CHR 0x94, CHR 0x84] @ '' Simulating token swap (1 WETH -> USDC)...''"

definition balance_arguments :: arguments where
  "balance_arguments = [(''address'', Str ''0xd8dA6BF26964aF9D7eEd9e03E53415D37aA96045'')]"

definition price_arguments :: arguments where
  "price_arguments =
     [ (''token_address'', Str ''0x1f9840a85d5aF5bf1D1762F925BDADdC4201F984''),
       (''quote_currency'', Str ''USD'') ]"

definition swap_arguments :: arguments where
  "swap_arguments =
     [ (''from_token'', Str ''0xC02aaA39b223FE8D0A0e5C4F27eAD9083C756Cc2''),
       (''to_token'', Str ''0xA0b86991c6218b36c1d19D4a2e9Eb0cE3606eB48''),
       (''amount'', Str ''1.0''),
       (''slippage_tolerance'', Float (1 / 2)) ]"

text \<open>
  \<open>print(f"Result: {result.content[0].text}\n")\<close>: the f-string is evaluated first, and
  the subscript raises \<open>IndexError\<close> on an empty list, before anything is written.
\<close>

definition print_result :: "call_tool_result \<Rightarrow> ('w, unit) action" where
  "print_result result =
     (case content result of
        [] \<Rightarrow> raise IndexError
      | item # _ \<Rightarrow> print (''Result: '' @ text_of item @ [CHR 0x0A]))"

text \<open>Lines 33 to 37: list the tools and print them.\<close>

definition list_step :: "'w sdk \<Rightarrow> ('w, unit) action" where
  "list_step m =
     bind (session_list_tools m) (\<lambda>tools_result.
     bind (print tools_header) (\<lambda>_.
     bind (for_each (tools tools_result) (\<lambda>t. print (tool_line t))) (\<lambda>_.
     print [])))"

text \<open>One of the three examples: print the label, call the tool, print the result.\<close>

definition call_step :: "'w sdk \<Rightarrow> string \<Rightarrow> string \<Rightarrow> arguments \<Rightarrow> ('w, unit) action" where
  "call_step m label nm arguments =
     bind (print label) (\<lambda>_.
     bind (session_call_tool m nm arguments) (\<lambda>result.
     print_result result))"

text \<open>The body of the inner \<open>async with\<close> block, lines 29 to 71.\<close>

definition session_body :: "'w sdk \<Rightarrow> ('w, unit) action" where
  "session_body m =
     bind (session_initialize m) (\<lambda>_.
     bind (print connected_message) (\<lambda>_.
     bind (list_step m) (\<lambda>_.
     bind (call_step m balance_label ''get_balance'' balance_arguments) (\<lambda>_.
     bind (call_step m price_label ''get_token_price'' price_arguments) (\<lambda>_.
     call_step m swap_label ''swap_tokens'' swap_arguments)))))"

definition main :: "environ \<Rightarrow> 'w sdk \<Rightarrow> ('w, unit) action" where
  "main environ m =
     async_with (enter_stdio_client m (make_server_params environ)) (exit_stdio_client m) (\<lambda>_.
       async_with (enter_client_session m) (exit_client_session m) (\<lambda>_.
         session_body m))"

text \<open>
  \<open>asyncio.run(main())\<close> in a fresh process: nothing requested and nothing printed yet.
  The first component of the result is the outcome: \<open>Inr ()\<close> when \<open>main\<close> returns,
  \<open>Inl e\<close> when the exception \<open>e\<close> leaves it and ends the process. Which exception
  leaves \<open>main\<close> after a failure is decided by the exits of the two context managers.
\<close>

definition run :: "environ \<Rightarrow> 'w sdk \<Rightarrow> 'w \<Rightarrow> (exn + unit) \<times> 'w state" where
  "run environ m w = main environ m \<lparr>world = w, trace = [], stdout = []\<rparr>"

subsection \<open>Observing a run\<close>

text \<open>The text that lines 34 to 37 write for a tool list, and line 47 for a content item.\<close>

definition listing_output :: "list_tools_result \<Rightarrow> string" where
  "listing_output r =
     tools_header @ [CHR 0x0A] @ concat (map (\<lambda>t. tool_line t @ [CHR 0x0A]) (tools r))
       @ [CHR 0x0A]"

definition result_output :: "text_content \<Rightarrow> string" where
  "result_output item = ''Result: '' @ text_of item @ [CHR 0x0A, CHR 0x0A]"

text \<open>The tool calls of a trace, in order: the name and the arguments of each.\<close>

fun tool_calls :: "event list \<Rightarrow> (string \<times> arguments) list" where
  "tool_calls [] = []"
| "tool_calls (CallTool nm a r # evs) = (nm, a) # tool_calls evs"
| "tool_calls (ev # evs) = tool_calls evs"

definition fixed_calls :: "(string \<times> arguments) list" where
  "fixed_calls =
     [ (''get_balance'', balance_arguments),
       (''get_token_price'', price_arguments),
       (''swap_tokens'', swap_arguments) ]"

fun is_close_session :: "event \<Rightarrow> bool" where
  "is_close_session (CloseSession given a) = True"
| "is_close_session ev = False"

fun is_close_transport :: "event \<Rightarrow> bool" where
  "is_close_transport (CloseTransport given a) = True"
| "is_close_transport ev = False"

definition is_release :: "event \<Rightarrow> bool" where
  "is_release ev = (is_close_session ev \<or> is_close_transport ev)"

text \<open>The exception an exit was given, and the answers of the exits of a trace.\<close>

fun handed :: "event \<Rightarrow> exn option" where
  "handed (CloseSession given a) = given"
| "handed (CloseTransport given a) = given"
| "handed ev = None"

fun exit_answers :: "event list \<Rightarrow> exit_answer list" where
  "exit_answers [] = []"
| "exit_answers (CloseSession given a # evs) = a # exit_answers evs"
| "exit_answers (CloseTransport given a # evs) = a # exit_answers evs"
| "exit_answers (ev # evs) = exit_answers evs"

text \<open>Every exit of the trace answered with a false value: it let the outcome go on.\<close>

definition exits_hand_on :: "event list \<Rightarrow> bool" where
  "exits_hand_on t = list_all (\<lambda>a. a = Falsy) (exit_answers t)"

fun is_list_tools :: "event \<Rightarrow> bool" where
  "is_list_tools (ListTools r) = True"
| "is_list_tools ev = False"

fun is_call_tool :: "event \<Rightarrow> bool" where
  "is_call_tool (CallTool nm a r) = True"
| "is_call_tool ev = False"

text \<open>The requests of a trace with their answers: everything but the releases.\<close>

definition exchanges :: "event list \<Rightarrow> event list" where
  "exchanges t = filter (\<lambda>ev. \<not> is_release ev) t"

text \<open>The exception with which the SDK answered a request, if it raised.\<close>

fun sdk_failure :: "event \<Rightarrow> exn option" where
  "sdk_failure (Connect p (Some e)) = Some e"
| "sdk_failure (OpenSession (Some e)) = Some e"
| "sdk_failure (Initialize (Some e)) = Some e"
| "sdk_failure (ListTools (Inl e)) = Some e"
| "sdk_failure (CallTool nm a (Inl e)) = Some e"
| "sdk_failure ev = None"

text \<open>
  The lines of a text: the pieces that end with a line feed, and what follows the last
  line feed when it is not empty.
\<close>

fun split_lines :: "string \<Rightarrow> string \<Rightarrow> string list" where
  "split_lines acc [] = (if acc = [] then [] else [acc])"
| "split_lines acc (c # cs) =
     (if c = CHR 0x0A then acc # split_lines [] cs else split_lines (acc @ [c]) cs)"

definition lines_of :: "string \<Rightarrow> string list" where
  "lines_of s = split_lines [] s"

text \<open>What a step writes when it starts in state \<open>s\<close>.\<close>

definition printed_by :: "('w, 'a) action \<Rightarrow> 'w state \<Rightarrow> string" where
  "printed_by act s = drop (length (stdout s)) (stdout (snd (act s)))"

subsection \<open>A scripted SDK\<close>

text \<open>
  The answers of a run to its requests, in order, without the requests. A scripted SDK is
  the fake that replays such a list, and a list of answers for the exits: its state is
  what is left of the two lists. Every request takes the next answer, and raises when the
  script has run out or has an answer of another kind there; every exit takes the next
  answer of the second list, and lets the outcome go on when that list has run out.
\<close>

datatype response =
    Done "exn option"
  | Tools "exn + list_tools_result"
  | Called "exn + call_tool_result"

fun responses_of :: "event list \<Rightarrow> response list" where
  "responses_of [] = []"
| "responses_of (Connect p r # evs) = Done r # responses_of evs"
| "responses_of (OpenSession r # evs) = Done r # responses_of evs"
| "responses_of (Initialize r # evs) = Done r # responses_of evs"
| "responses_of (ListTools r # evs) = Tools r # responses_of evs"
| "responses_of (CallTool nm a r # evs) = Called r # responses_of evs"
| "responses_of (ev # evs) = responses_of evs"

definition off_script :: exn where
  "off_script = SdkError ''off script''"

fun next_done :: "response list \<Rightarrow> exn option \<times> response list" where
  "next_done (Done r # rs) = (r, rs)"
| "next_done rs = (Some off_script, rs)"

fun next_tools :: "response list \<Rightarrow> (exn + list_tools_result) \<times> response list" where
  "next_tools (Tools r # rs) = (r, rs)"
| "next_tools rs = (Inl off_script, rs)"

fun next_called :: "response list \<Rightarrow> (exn + call_tool_result) \<times> response list" where
  "next_called (Called r # rs) = (r, rs)"
| "next_called rs = (Inl off_script, rs)"

type_synonym script = "response list \<times> exit_answer list"

fun on_script :: "(response list \<Rightarrow> 'a \<times> response list) \<Rightarrow> script \<Rightarrow> 'a \<times> script" where
  "on_script f (rs, xs) = (fst (f rs), (snd (f rs), xs))"

fun next_exit :: "script \<Rightarrow> exit_answer \<times> script" where
  "next_exit (rs, a # xs) = (a, (rs, xs))"
| "next_exit (rs, []) = (Falsy, (rs, []))"

definition scripted :: "script sdk" where
  "scripted =
     \<lparr> stdio_client = (\<lambda>p. on_script next_done),
       stdio_client_exit = (\<lambda>given. next_exit),
       client_session = on_script next_done,
       client_session_exit = (\<lambda>given. next_exit),
       initialize = on_script next_done,
       list_tools = on_script next_tools,
       call_tool = (\<lambda>nm a. on_script next_called) \<rparr>"

text \<open>A call that returned a result whose content list has a first item.\<close>

fun has_first_item :: "event \<Rightarrow> bool" where
  "has_first_item (CallTool nm a (Inr r)) = (content r \<noteq> [])"
| "has_first_item ev = False"

text \<open>A name or a description that stays on one line.\<close>

definition single_line :: "string \<Rightarrow> bool" where
  "single_line s = (CHR 0x0A \<notin> set s)"

subsection \<open>Concrete runs\<close>

text \<open>
  Three environments: none of the variables set, the chain identifier set to another
  chain, and the private key set to something that is not a key.
\<close>

definition unset :: environ where
  "unset = Map.empty"

definition chain_id_set :: environ where
  "chain_id_set = [''CHAIN_ID'' \<mapsto> ''5'']"

definition private_key_set :: environ where
  "private_key_set = [''PRIVATE_KEY'' \<mapsto> ''hunter2'']"

text \<open>
  The handshake raises. With no answers for the exits, the exits let the exception go on;
  with the wrapping answers, each exit raises an exception group around the exception it
  was given, as the exit of a task group does.
\<close>

definition group_message :: string where
  "group_message = ''unhandled errors in a TaskGroup (1 sub-exception)''"

definition wrapping_exits :: "exit_answer list" where
  "wrapping_exits =
     [ Raises (ExceptionGroup group_message [SdkError ''handshake refused'']),
       Raises (ExceptionGroup group_message
                 [ExceptionGroup group_message [SdkError ''handshake refused'']]) ]"

definition handshake_fails_script :: "response list" where
  "handshake_fails_script = [Done None, Done None, Done (Some (SdkError ''handshake refused''))]"

text \<open>No tools, and a balance result without content.\<close>

definition empty_balance_script :: "response list" where
  "empty_balance_script =
     [ Done None, Done None, Done None,
       Tools (Inr \<lparr>tools = []\<rparr>),
       Called (Inr \<lparr>content = []\<rparr>) ]"

text \<open>The end-to-end scenario of the spec: one tool, three canned texts.\<close>

definition canned_tools :: list_tools_result where
  "canned_tools = \<lparr>tools = [\<lparr>name = ''get_balance'', description = ''x''\<rparr>]\<rparr>"

definition canned_responses ::
    "text_content list \<Rightarrow> text_content list \<Rightarrow> text_content list \<Rightarrow> response list" where
  "canned_responses more1 more2 more3 =
     [ Done None, Done None, Done None,
       Tools (Inr canned_tools),
       Called (Inr \<lparr>content = TextContent ''1.5 ETH'' # more1\<rparr>),
       Called (Inr \<lparr>content = TextContent ''7.23 USD'' # more2\<rparr>),
       Called (Inr \<lparr>content = TextContent ''ok'' # more3\<rparr>) ]"

text \<open>
  The same scenario by another fake, which keeps no state and answers a call by the name
  of the tool. Its exits let the outcome go on.
\<close>

definition canned_text :: "string \<Rightarrow> string" where
  "canned_text nm =
     (if nm = ''get_balance'' then ''1.5 ETH''
      else if nm = ''get_token_price'' then ''7.23 USD''
      else ''ok'')"

definition canned :: "unit sdk" where
  "canned =
     \<lparr> stdio_client = (\<lambda>p w. (None, w)),
       stdio_client_exit = (\<lambda>given w. (Falsy, w)),
       client_session = (\<lambda>w. (None, w)),
       client_session_exit = (\<lambda>given w. (Falsy, w)),
       initialize = (\<lambda>w. (None, w)),
       list_tools = (\<lambda>w. (Inr canned_tools, w)),
       call_tool = (\<lambda>nm a w. (Inr \<lparr>content = [TextContent (canned_text nm)]\<rparr>, w)) \<rparr>"

text \<open>The state in which the one tool of the scenario is listed.\<close>

definition canned_listing_state :: "script state" where
  "canned_listing_state =
     \<lparr>world = ([Tools (Inr canned_tools)], []), trace = [], stdout = []\<rparr>"

text \<open>A tool whose description has two lines, and the state in which it is listed.\<close>

definition two_line_tool :: tool where
  "two_line_tool = \<lparr>name = ''t'', description = ''a'' @ [CHR 0x0A] @ ''b''\<rparr>"

definition two_line_state :: "script state" where
  "two_line_state =
     \<lparr>world = ([Tools (Inr \<lparr>tools = [two_line_tool]\<rparr>)], []), trace = [], stdout = []\<rparr>"

section \<open>Properties\<close>

subsection \<open>The launch configuration\<close>

text \<open>
  C2, as the spec states it, fails for the chain identifier: the entry \<open>CHAIN_ID\<close> of the
  launch configuration is the literal \<open>"1"\<close> and is not read from the environment. With
  the variable set to \<open>5\<close> the configuration still carries \<open>1\<close>.
\<close>

theorem chain_id_override_counterexample:
  "chain_id_set ''CHAIN_ID'' = Some ''5''
   \<and> env_value (make_server_params chain_id_set) ''CHAIN_ID'' = Some ''1''
   \<and> env_value (make_server_params chain_id_set) ''CHAIN_ID'' \<noteq> chain_id_set ''CHAIN_ID''"
  by (simp add: make_server_params_def env_value_def chain_id_set_def)

text \<open>
  C2, amended: setting the RPC URL variable or the private key variable changes exactly
  the entry of that name in the launch configuration and nothing else, and each of the
  two entries is its literal default when the variable is absent; setting the chain
  identifier variable changes nothing, and the chain identifier of the launch
  configuration is \<open>"1"\<close> in every environment.
\<close>

theorem environment_overrides:
  "make_server_params (environ(''ETH_RPC_URL'' \<mapsto> v))
       = (make_server_params environ)
           \<lparr>env := AList.update ''ETH_RPC_URL'' v (env (make_server_params environ))\<rparr>
   \<and> make_server_params (environ(''PRIVATE_KEY'' \<mapsto> v))
       = (make_server_params environ)
           \<lparr>env := AList.update ''PRIVATE_KEY'' v (env (make_server_params environ))\<rparr>
   \<and> make_server_params (environ(''CHAIN_ID'' \<mapsto> v)) = make_server_params environ
   \<and> env_value (make_server_params environ) ''ETH_RPC_URL''
       = Some (case environ ''ETH_RPC_URL'' of None \<Rightarrow> default_rpc_url | Some u \<Rightarrow> u)
   \<and> env_value (make_server_params environ) ''PRIVATE_KEY''
       = Some (case environ ''PRIVATE_KEY'' of None \<Rightarrow> default_private_key | Some k \<Rightarrow> k)
   \<and> env_value (make_server_params environ) ''CHAIN_ID'' = Some ''1''"
  by (simp add: make_server_params_def getenv_def env_value_def)

lemma default_private_key_hex: "is_hex_key default_private_key"
  by (simp add: is_hex_key_def is_hex_digit_def default_private_key_def)

text \<open>
  C7, as the spec states it, fails for the private key: the value of the variable is
  embedded as it is, so the entry need not be a hex string of the fixed length.
\<close>

theorem private_key_counterexample:
  "env_value (make_server_params private_key_set) ''PRIVATE_KEY'' = Some ''hunter2''
   \<and> \<not> is_hex_key ''hunter2''"
  by (simp add: make_server_params_def getenv_def env_value_def is_hex_key_def private_key_set_def)

text \<open>
  C7, amended: in every run the launch configuration has the command \<open>cargo\<close>, the
  argument list \<open>run --release\<close>, and an environment mapping of exactly three entries,
  \<open>ETH_RPC_URL\<close>, \<open>PRIVATE_KEY\<close> and \<open>CHAIN_ID\<close>. The chain identifier is the numeral
  \<open>1\<close>. The private key is the value of the variable \<open>PRIVATE_KEY\<close>, unchecked, when
  it is set, and otherwise the default, which is a hex string of 64 characters.
\<close>

theorem launch_configuration_shape:
  "command (make_server_params environ) = ''cargo''
   \<and> args (make_server_params environ) = [''run'', ''--release'']
   \<and> map fst (env (make_server_params environ)) = [''ETH_RPC_URL'', ''PRIVATE_KEY'', ''CHAIN_ID'']
   \<and> length (env (make_server_params environ)) = 3
   \<and> env_value (make_server_params environ) ''PRIVATE_KEY''
       = Some (case environ ''PRIVATE_KEY'' of None \<Rightarrow> default_private_key | Some k \<Rightarrow> k)
   \<and> is_hex_key default_private_key
   \<and> env_value (make_server_params environ) ''CHAIN_ID'' = Some ''1''
   \<and> is_numeric ''1''"
  by (simp add: make_server_params_def getenv_def env_value_def default_private_key_hex
        is_numeric_def)

subsection \<open>The steps in closed form\<close>

lemma for_each_print:
  "for_each ts (\<lambda>t. print (f t)) s =
     (Inr (), s\<lparr>stdout := stdout s @ concat (map (\<lambda>t. f t @ [CHR 0x0A]) ts)\<rparr>)"
  by (induction ts arbitrary: s) (simp_all add: returns_def bind_def print_def)

lemma list_step_eq:
  "list_step m s =
     (case list_tools m (world s) of
        (Inl e, w') \<Rightarrow> (Inl e, s\<lparr>world := w', trace := trace s @ [ListTools (Inl e)]\<rparr>)
      | (Inr r, w') \<Rightarrow>
          (Inr (), s\<lparr>world := w', trace := trace s @ [ListTools (Inr r)],
                      stdout := stdout s @ listing_output r\<rparr>))"
  by (simp add: list_step_def bind_def session_list_tools_def print_def for_each_print
        listing_output_def split: prod.splits sum.splits)

lemma call_step_eq:
  "call_step m label nm a s =
     (case call_tool m nm a (world s) of
        (Inl e, w') \<Rightarrow>
          (Inl e, s\<lparr>world := w', trace := trace s @ [CallTool nm a (Inl e)],
                     stdout := stdout s @ label @ [CHR 0x0A]\<rparr>)
      | (Inr r, w') \<Rightarrow>
          (case content r of
             [] \<Rightarrow> (Inl IndexError,
                     s\<lparr>world := w', trace := trace s @ [CallTool nm a (Inr r)],
                       stdout := stdout s @ label @ [CHR 0x0A]\<rparr>)
           | item # rest \<Rightarrow>
               (Inr (), s\<lparr>world := w', trace := trace s @ [CallTool nm a (Inr r)],
                          stdout := stdout s @ label @ [CHR 0x0A] @ result_output item\<rparr>)))"
  by (simp add: call_step_def bind_def session_call_tool_def print_def print_result_def raise_def
        result_output_def split: prod.splits sum.splits list.splits)

lemmas run_unfold = run_def main_def async_with_def session_body_def bind_def
  enter_stdio_client_def enter_client_session_def session_initialize_def unit_result_def
  exit_stdio_client_def exit_client_session_def print_def list_step_eq call_step_eq

text \<open>
  A run ends in one of eleven ways. In each, the requests and their answers, the
  exception given to each exit, the output, and the outcome as the answers of the exits
  make it, are these.
\<close>

lemma run_cases:
  fixes environ :: environ and m :: "'w sdk" and w :: 'w
  obtains
    (connect_failed) e where
      "trace (snd (run environ m w)) = [Connect (make_server_params environ) (Some e)]"
      "stdout (snd (run environ m w)) = []"
      "fst (run environ m w) = Inl e"
  | (open_failed) e a2 where
      "trace (snd (run environ m w)) =
         [Connect (make_server_params environ) None, OpenSession (Some e), CloseTransport (Some e) a2]"
      "stdout (snd (run environ m w)) = []"
      "fst (run environ m w) = after_exit (Inl e) a2"
  | (initialize_failed) e a1 a2 where
      "trace (snd (run environ m w)) =
         [Connect (make_server_params environ) None, OpenSession None, Initialize (Some e),
          CloseSession (Some e) a1, CloseTransport (exc_of (after_exit (Inl e) a1)) a2]"
      "stdout (snd (run environ m w)) =
         []"
      "fst (run environ m w) = after_exit (after_exit (Inl e) a1) a2"
  | (list_failed) e a1 a2 where
      "trace (snd (run environ m w)) =
         [Connect (make_server_params environ) None, OpenSession None, Initialize None,
          ListTools (Inl e), CloseSession (Some e) a1,
          CloseTransport (exc_of (after_exit (Inl e) a1)) a2]"
      "stdout (snd (run environ m w)) =
         connected_message @ [CHR 0x0A]"
      "fst (run environ m w) = after_exit (after_exit (Inl e) a1) a2"
  | (balance_failed) tl e a1 a2 where
      "trace (snd (run environ m w)) =
         [Connect (make_server_params environ) None, OpenSession None, Initialize None,
          ListTools (Inr tl), CallTool ''get_balance'' balance_arguments (Inl e),
          CloseSession (Some e) a1, CloseTransport (exc_of (after_exit (Inl e) a1)) a2]"
      "stdout (snd (run environ m w)) =
         connected_message @ [CHR 0x0A] @ listing_output tl @ balance_label @ [CHR 0x0A]"
      "fst (run environ m w) = after_exit (after_exit (Inl e) a1) a2"
  | (balance_empty) tl r1 a1 a2 where
      "content r1 = []"
      "trace (snd (run environ m w)) =
         [Connect (make_server_params environ) None, OpenSession None, Initialize None,
          ListTools (Inr tl), CallTool ''get_balance'' balance_arguments (Inr r1),
          CloseSession (Some IndexError) a1,
          CloseTransport (exc_of (after_exit (Inl IndexError) a1)) a2]"
      "stdout (snd (run environ m w)) =
         connected_message @ [CHR 0x0A] @ listing_output tl @ balance_label @ [CHR 0x0A]"
      "fst (run environ m w) = after_exit (after_exit (Inl IndexError) a1) a2"
  | (price_failed) tl r1 i1 c1 e a1 a2 where
      "content r1 = i1 # c1"
      "trace (snd (run environ m w)) =
         [Connect (make_server_params environ) None, OpenSession None, Initialize None,
          ListTools (Inr tl), CallTool ''get_balance'' balance_arguments (Inr r1),
          CallTool ''get_token_price'' price_arguments (Inl e), CloseSession (Some e) a1,
          CloseTransport (exc_of (after_exit (Inl e) a1)) a2]"
      "stdout (snd (run environ m w)) =
         connected_message @ [CHR 0x0A] @ listing_output tl @ balance_label @ [CHR 0x0A]
         @ result_output i1 @ price_label @ [CHR 0x0A]"
      "fst (run environ m w) = after_exit (after_exit (Inl e) a1) a2"
  | (price_empty) tl r1 i1 c1 r2 a1 a2 where
      "content r1 = i1 # c1"
      "content r2 = []"
      "trace (snd (run environ m w)) =
         [Connect (make_server_params environ) None, OpenSession None, Initialize None,
          ListTools (Inr tl), CallTool ''get_balance'' balance_arguments (Inr r1),
          CallTool ''get_token_price'' price_arguments (Inr r2),
          CloseSession (Some IndexError) a1,
          CloseTransport (exc_of (after_exit (Inl IndexError) a1)) a2]"
      "stdout (snd (run environ m w)) =
         connected_message @ [CHR 0x0A] @ listing_output tl @ balance_label @ [CHR 0x0A]
         @ result_output i1 @ price_label @ [CHR 0x0A]"
      "fst (run environ m w) = after_exit (after_exit (Inl IndexError) a1) a2"
  | (swap_failed) tl r1 i1 c1 r2 i2 c2 e a1 a2 where
      "content r1 = i1 # c1"
      "content r2 = i2 # c2"
      "trace (snd (run environ m w)) =
         [Connect (make_server_params environ) None, OpenSession None, Initialize None,
          ListTools (Inr tl), CallTool ''get_balance'' balance_arguments (Inr r1),
          CallTool ''get_token_price'' price_arguments (Inr r2),
          CallTool ''swap_tokens'' swap_arguments (Inl e), CloseSession (Some e) a1,
          CloseTransport (exc_of (after_exit (Inl e) a1)) a2]"
      "stdout (snd (run environ m w)) =
         connected_message @ [CHR 0x0A] @ listing_output tl @ balance_label @ [CHR 0x0A]
         @ result_output i1 @ price_label @ [CHR 0x0A] @ result_output i2 @ swap_label
         @ [CHR 0x0A]"
      "fst (run environ m w) = after_exit (after_exit (Inl e) a1) a2"
  | (swap_empty) tl r1 i1 c1 r2 i2 c2 r3 a1 a2 where
      "content r1 = i1 # c1"
      "content r2 = i2 # c2"
      "content r3 = []"
      "trace (snd (run environ m w)) =
         [Connect (make_server_params environ) None, OpenSession None, Initialize None,
          ListTools (Inr tl), CallTool ''get_balance'' balance_arguments (Inr r1),
          CallTool ''get_token_price'' price_arguments (Inr r2),
          CallTool ''swap_tokens'' swap_arguments (Inr r3),
          CloseSession (Some IndexError) a1,
          CloseTransport (exc_of (after_exit (Inl IndexError) a1)) a2]"
      "stdout (snd (run environ m w)) =
         connected_message @ [CHR 0x0A] @ listing_output tl @ balance_label @ [CHR 0x0A]
         @ result_output i1 @ price_label @ [CHR 0x0A] @ result_output i2 @ swap_label
         @ [CHR 0x0A]"
      "fst (run environ m w) = after_exit (after_exit (Inl IndexError) a1) a2"
  | (completed) tl r1 i1 c1 r2 i2 c2 r3 i3 c3 a1 a2 where
      "content r1 = i1 # c1"
      "content r2 = i2 # c2"
      "content r3 = i3 # c3"
      "trace (snd (run environ m w)) =
         [Connect (make_server_params environ) None, OpenSession None, Initialize None,
          ListTools (Inr tl), CallTool ''get_balance'' balance_arguments (Inr r1),
          CallTool ''get_token_price'' price_arguments (Inr r2),
          CallTool ''swap_tokens'' swap_arguments (Inr r3), CloseSession None a1,
          CloseTransport (exc_of (after_exit (Inr ()) a1)) a2]"
      "stdout (snd (run environ m w)) =
         connected_message @ [CHR 0x0A] @ listing_output tl @ balance_label @ [CHR 0x0A]
         @ result_output i1 @ price_label @ [CHR 0x0A] @ result_output i2 @ swap_label
         @ [CHR 0x0A] @ result_output i3"
      "fst (run environ m w) = after_exit (after_exit (Inr ()) a1) a2"
proof -
  let ?p = "make_server_params environ"
  obtain q1 w1 where s1: "stdio_client m ?p w = (q1, w1)"
    by (cases "stdio_client m ?p w")
  obtain q2 w2 where s2: "client_session m w1 = (q2, w2)"
    by (cases "client_session m w1")
  obtain q3 w3 where s3: "initialize m w2 = (q3, w3)"
    by (cases "initialize m w2")
  obtain q4 w4 where s4: "list_tools m w3 = (q4, w4)"
    by (cases "list_tools m w3")
  obtain q5 w5 where s5: "call_tool m ''get_balance'' balance_arguments w4 = (q5, w5)"
    by (cases "call_tool m ''get_balance'' balance_arguments w4")
  obtain q6 w6 where s6: "call_tool m ''get_token_price'' price_arguments w5 = (q6, w6)"
    by (cases "call_tool m ''get_token_price'' price_arguments w5")
  obtain q7 w7 where s7: "call_tool m ''swap_tokens'' swap_arguments w6 = (q7, w7)"
    by (cases "call_tool m ''swap_tokens'' swap_arguments w6")
  note steps = s1 s2 s3 s4 s5 s6 s7
  show thesis
  proof (cases q1)
    case f: (Some e)
    show thesis
      by (rule connect_failed [of e]) (simp_all add: run_unfold steps f)
  next
    case n1: None
    show thesis
    proof (cases q2)
      case f: (Some e)
      obtain a2 v2 where x2: "stdio_client_exit m (Some e) w2 = (a2, v2)"
        by (cases "stdio_client_exit m (Some e) w2")
      show thesis
        by (rule open_failed [of e a2]) (simp_all add: run_unfold steps x2 n1 f)
    next
      case n2: None
      show thesis
      proof (cases q3)
        case f: (Some e)
        obtain a1 v1 where x1: "client_session_exit m (Some e) w3 = (a1, v1)"
          by (cases "client_session_exit m (Some e) w3")
        obtain a2 v2
          where x2: "stdio_client_exit m (exc_of (after_exit (Inl e) a1)) v1 = (a2, v2)"
          by (cases "stdio_client_exit m (exc_of (after_exit (Inl e) a1)) v1")
        show thesis
          by (rule initialize_failed [of e a1 a2]) (simp_all add: run_unfold steps x1 x2 n1 n2 f)
      next
        case n3: None
        note ok = n1 n2 n3
        show thesis
        proof (cases q4)
          case f: (Inl e)
          obtain a1 v1 where x1: "client_session_exit m (Some e) w4 = (a1, v1)"
            by (cases "client_session_exit m (Some e) w4")
          obtain a2 v2
            where x2: "stdio_client_exit m (exc_of (after_exit (Inl e) a1)) v1 = (a2, v2)"
            by (cases "stdio_client_exit m (exc_of (after_exit (Inl e) a1)) v1")
          show thesis
            by (rule list_failed [of e a1 a2]) (simp_all add: run_unfold steps x1 x2 ok f)
        next
          case n4: (Inr tl)
          show thesis
          proof (cases q5)
            case f: (Inl e)
            obtain a1 v1 where x1: "client_session_exit m (Some e) w5 = (a1, v1)"
              by (cases "client_session_exit m (Some e) w5")
            obtain a2 v2
              where x2: "stdio_client_exit m (exc_of (after_exit (Inl e) a1)) v1 = (a2, v2)"
              by (cases "stdio_client_exit m (exc_of (after_exit (Inl e) a1)) v1")
            show thesis
              by (rule balance_failed [of tl e a1 a2]) (simp_all add: run_unfold steps x1 x2 ok n4 f)
          next
            case n5: (Inr r1)
            show thesis
            proof (cases "content r1")
              case k: Nil
              obtain a1 v1 where x1: "client_session_exit m (Some IndexError) w5 = (a1, v1)"
                by (cases "client_session_exit m (Some IndexError) w5")
              obtain a2 v2
                where x2: "stdio_client_exit m (exc_of (after_exit (Inl IndexError) a1)) v1 = (a2, v2)"
                by (cases "stdio_client_exit m (exc_of (after_exit (Inl IndexError) a1)) v1")
              show thesis
                by (rule balance_empty [of r1 tl a1 a2]) (simp_all add: run_unfold steps x1 x2 ok n4 n5 k)
            next
              case k1: (Cons i1 c1)
              show thesis
              proof (cases q6)
                case f: (Inl e)
                obtain a1 v1 where x1: "client_session_exit m (Some e) w6 = (a1, v1)"
                  by (cases "client_session_exit m (Some e) w6")
                obtain a2 v2
                  where x2: "stdio_client_exit m (exc_of (after_exit (Inl e) a1)) v1 = (a2, v2)"
                  by (cases "stdio_client_exit m (exc_of (after_exit (Inl e) a1)) v1")
                show thesis
                  by (rule price_failed [of r1 i1 c1 tl e a1 a2]) (simp_all add: run_unfold steps x1 x2 ok n4 n5 k1 f)
              next
                case n6: (Inr r2)
                show thesis
                proof (cases "content r2")
                  case k: Nil
                  obtain a1 v1 where x1: "client_session_exit m (Some IndexError) w6 = (a1, v1)"
                    by (cases "client_session_exit m (Some IndexError) w6")
                  obtain a2 v2
                    where x2: "stdio_client_exit m (exc_of (after_exit (Inl IndexError) a1)) v1 = (a2, v2)"
                    by (cases "stdio_client_exit m (exc_of (after_exit (Inl IndexError) a1)) v1")
                  show thesis
                    by (rule price_empty [of r1 i1 c1 r2 tl a1 a2]) (simp_all add: run_unfold steps x1 x2 ok n4 n5 k1 n6 k)
                next
                  case k2: (Cons i2 c2)
                  show thesis
                  proof (cases q7)
                    case f: (Inl e)
                    obtain a1 v1 where x1: "client_session_exit m (Some e) w7 = (a1, v1)"
                      by (cases "client_session_exit m (Some e) w7")
                    obtain a2 v2
                      where x2: "stdio_client_exit m (exc_of (after_exit (Inl e) a1)) v1 = (a2, v2)"
                      by (cases "stdio_client_exit m (exc_of (after_exit (Inl e) a1)) v1")
                    show thesis
                      by (rule swap_failed [of r1 i1 c1 r2 i2 c2 tl e a1 a2]) (simp_all add: run_unfold steps x1 x2 ok n4 n5 k1 n6 k2 f)
                  next
                    case n7: (Inr r3)
                    show thesis
                    proof (cases "content r3")
                      case k: Nil
                      obtain a1 v1 where x1: "client_session_exit m (Some IndexError) w7 = (a1, v1)"
                        by (cases "client_session_exit m (Some IndexError) w7")
                      obtain a2 v2
                        where x2: "stdio_client_exit m (exc_of (after_exit (Inl IndexError) a1)) v1 = (a2, v2)"
                        by (cases "stdio_client_exit m (exc_of (after_exit (Inl IndexError) a1)) v1")
                      show thesis
                        by (rule swap_empty [of r1 i1 c1 r2 i2 c2 r3 tl a1 a2]) (simp_all add: run_unfold steps x1 x2 ok n4 n5 k1 n6 k2 n7 k)
                    next
                      case k3: (Cons i3 c3)
                      obtain a1 v1 where x1: "client_session_exit m (None) w7 = (a1, v1)"
                        by (cases "client_session_exit m (None) w7")
                      obtain a2 v2
                        where x2: "stdio_client_exit m (exc_of (after_exit (Inr ()) a1)) v1 = (a2, v2)"
                        by (cases "stdio_client_exit m (exc_of (after_exit (Inr ()) a1)) v1")
                      show thesis
                        by (rule completed [of r1 i1 c1 r2 i2 c2 r3 i3 c3 tl a1 a2]) (simp_all add: run_unfold steps x1 x2 ok n4 n5 k1 n6 k2 n7 k3)
                    qed
                  qed
                qed
              qed
            qed
          qed
        qed
      qed
    qed
  qed
qed

text \<open>The concrete runs, evaluated.\<close>

lemma handshake_fails_run:
  "run unset scripted (handshake_fails_script, []) =
     (Inl (SdkError ''handshake refused''),
      \<lparr>world = ([], []),
       trace = [Connect (make_server_params unset) None, OpenSession None,
                Initialize (Some (SdkError ''handshake refused'')),
                CloseSession (Some (SdkError ''handshake refused'')) Falsy,
                CloseTransport (Some (SdkError ''handshake refused'')) Falsy],
       stdout = []\<rparr>)"
  by (simp add: run_unfold scripted_def handshake_fails_script_def)

lemma handshake_wrapped_run:
  "run unset scripted (handshake_fails_script, wrapping_exits) =
     (Inl (ExceptionGroup group_message
             [ExceptionGroup group_message [SdkError ''handshake refused'']]),
      \<lparr>world = ([], []),
       trace = [Connect (make_server_params unset) None, OpenSession None,
                Initialize (Some (SdkError ''handshake refused'')),
                CloseSession (Some (SdkError ''handshake refused''))
                  (Raises (ExceptionGroup group_message [SdkError ''handshake refused''])),
                CloseTransport
                  (Some (ExceptionGroup group_message [SdkError ''handshake refused'']))
                  (Raises (ExceptionGroup group_message
                     [ExceptionGroup group_message [SdkError ''handshake refused'']]))],
       stdout = []\<rparr>)"
  by (simp add: run_unfold scripted_def handshake_fails_script_def wrapping_exits_def)

lemma empty_balance_run:
  "run unset scripted (empty_balance_script, []) =
     (Inl IndexError,
      \<lparr>world = ([], []),
       trace = [Connect (make_server_params unset) None, OpenSession None,
                Initialize None, ListTools (Inr \<lparr>tools = []\<rparr>),
                CallTool ''get_balance'' balance_arguments (Inr \<lparr>content = []\<rparr>),
                CloseSession (Some IndexError) Falsy, CloseTransport (Some IndexError) Falsy],
       stdout = connected_message @ [CHR 0x0A] @ listing_output \<lparr>tools = []\<rparr>
                  @ balance_label @ [CHR 0x0A]\<rparr>)"
  by (simp add: run_unfold scripted_def empty_balance_script_def)

lemma canned_script_run:
  "run unset scripted (canned_responses [] [] [], []) =
     (Inr (),
      \<lparr>world = ([], []),
       trace = [Connect (make_server_params unset) None, OpenSession None,
                Initialize None, ListTools (Inr canned_tools),
                CallTool ''get_balance'' balance_arguments
                  (Inr \<lparr>content = [TextContent ''1.5 ETH'']\<rparr>),
                CallTool ''get_token_price'' price_arguments
                  (Inr \<lparr>content = [TextContent ''7.23 USD'']\<rparr>),
                CallTool ''swap_tokens'' swap_arguments
                  (Inr \<lparr>content = [TextContent ''ok'']\<rparr>),
                CloseSession None Falsy, CloseTransport None Falsy],
       stdout = connected_message @ [CHR 0x0A] @ listing_output canned_tools
                  @ balance_label @ [CHR 0x0A] @ result_output (TextContent ''1.5 ETH'')
                  @ price_label @ [CHR 0x0A] @ result_output (TextContent ''7.23 USD'')
                  @ swap_label @ [CHR 0x0A] @ result_output (TextContent ''ok'')\<rparr>)"
  by (simp add: run_unfold scripted_def canned_responses_def)

lemmas observers = exchanges_def is_release_def exits_hand_on_def

subsection \<open>The three tool calls\<close>

text \<open>
  C1, as the spec states it, fails: a run that has reached the tool calls stops at the
  first call whose result has no content (or that raises), so fewer than three calls can
  be issued. Here the balance result has an empty content list and \<open>get_balance\<close> is the
  only call.
\<close>

theorem three_calls_counterexample:
  "tool_calls (trace (snd (run unset scripted (empty_balance_script, []))))
     = [(''get_balance'', balance_arguments)]
   \<and> tool_calls (trace (snd (run unset scripted (empty_balance_script, [])))) \<noteq> fixed_calls"
  by (simp add: empty_balance_run fixed_calls_def)

text \<open>
  C1, amended: in every run, whatever the SDK answers, the tool calls issued are an
  initial segment of the fixed sequence \<open>get_balance\<close>, \<open>get_token_price\<close>,
  \<open>swap_tokens\<close>, each with exactly its literal arguments; a run whose tool listing
  succeeded issues at least the first call; all three are issued exactly when two calls
  returned a result with a first content item, and so in every run whose session block
  ends without an exception: among them every run that completes while the exits of the
  context managers let exceptions go on.
\<close>

theorem tool_calls_fixed:
  "prefix (tool_calls (trace (snd (run environ m w)))) fixed_calls
   \<and> ((\<exists>tl. ListTools (Inr tl) \<in> set (trace (snd (run environ m w))))
        \<longrightarrow> tool_calls (trace (snd (run environ m w))) \<noteq> [])
   \<and> ((tool_calls (trace (snd (run environ m w))) = fixed_calls)
        = (2 \<le> length (filter has_first_item (trace (snd (run environ m w))))))
   \<and> ((\<exists>a. CloseSession None a \<in> set (trace (snd (run environ m w))))
        \<longrightarrow> tool_calls (trace (snd (run environ m w))) = fixed_calls)
   \<and> (exits_hand_on (trace (snd (run environ m w))) \<and> fst (run environ m w) = Inr ()
        \<longrightarrow> tool_calls (trace (snd (run environ m w))) = fixed_calls)"
  by (cases environ m w rule: run_cases) (simp_all add: fixed_calls_def exits_hand_on_def)

theorem tool_calls_fixed_witness:
  "(\<exists>tl. ListTools (Inr tl)
       \<in> set (trace (snd (run unset scripted (canned_responses [] [] [], [])))))
   \<and> (\<exists>a. CloseSession None a
       \<in> set (trace (snd (run unset scripted (canned_responses [] [] [], [])))))
   \<and> exits_hand_on (trace (snd (run unset scripted (canned_responses [] [] [], []))))
   \<and> fst (run unset scripted (canned_responses [] [] [], [])) = Inr ()
   \<and> 2 \<le> length (filter has_first_item
         (trace (snd (run unset scripted (canned_responses [] [] [], [])))))
   \<and> tool_calls (trace (snd (run unset scripted (canned_responses [] [] [], []))))
       = fixed_calls"
  using tool_calls_fixed [of unset scripted "(canned_responses [] [] [], [])"]
  by (simp add: canned_script_run exits_hand_on_def)

subsection \<open>Failure of the handshake\<close>

text \<open>
  C3: when the handshake raises, the run ends there. Its requests are the connection, the
  opening of the session and the failed handshake, and its trace is these followed by the
  two releases: there is no request for the tool list and no tool call, and nothing has
  been printed. The exit of the session is given the exception of the handshake as it
  was raised; the outcome of the run is what the two exits make of it, and is that
  exception when both let it go on.
\<close>

theorem handshake_failure_stops_run:
  "Initialize (Some e) \<in> set (trace (snd (run environ m w))) \<Longrightarrow>
     exchanges (trace (snd (run environ m w))) =
       [Connect (make_server_params environ) None, OpenSession None, Initialize (Some e)]
     \<and> (\<exists>a1 a2.
          trace (snd (run environ m w)) =
            [Connect (make_server_params environ) None, OpenSession None,
             Initialize (Some e), CloseSession (Some e) a1,
             CloseTransport (exc_of (after_exit (Inl e) a1)) a2]
          \<and> fst (run environ m w) = after_exit (after_exit (Inl e) a1) a2)
     \<and> \<not> list_ex is_list_tools (trace (snd (run environ m w)))
     \<and> \<not> list_ex is_call_tool (trace (snd (run environ m w)))
     \<and> stdout (snd (run environ m w)) = []
     \<and> (exits_hand_on (trace (snd (run environ m w))) \<longrightarrow> fst (run environ m w) = Inl e)"
  by (cases environ m w rule: run_cases) (simp_all add: observers)

theorem handshake_failure_stops_run_witness:
  "Initialize (Some (SdkError ''handshake refused''))
     \<in> set (trace (snd (run unset scripted (handshake_fails_script, []))))
   \<and> exits_hand_on (trace (snd (run unset scripted (handshake_fails_script, []))))
   \<and> \<not> list_ex is_list_tools (trace (snd (run unset scripted (handshake_fails_script, []))))
   \<and> \<not> list_ex is_call_tool (trace (snd (run unset scripted (handshake_fails_script, []))))
   \<and> stdout (snd (run unset scripted (handshake_fails_script, []))) = []
   \<and> fst (run unset scripted (handshake_fails_script, []))
       = Inl (SdkError ''handshake refused'')"
proof -
  have h: "Initialize (Some (SdkError ''handshake refused''))
             \<in> set (trace (snd (run unset scripted (handshake_fails_script, []))))"
    by (simp add: handshake_fails_run)
  have x: "exits_hand_on (trace (snd (run unset scripted (handshake_fails_script, []))))"
    by (simp add: handshake_fails_run exits_hand_on_def)
  from handshake_failure_stops_run [OF h] h x show ?thesis by blast
qed

subsection \<open>Release of the transport and of the session\<close>



subsection \<open>Errors of the SDK\<close>

text \<open>
  C5, as the spec states it, fails: the exception that leaves \<open>main\<close> is the one the exits
  of the two context managers let out, and it need not be the one that was raised. Here
  the handshake raises, each exit raises an exception group around the exception it was
  given, and the run ends with a group in a group, not with the exception of the
  handshake.
\<close>

theorem wrapped_error_counterexample:
  "Initialize (Some (SdkError ''handshake refused''))
     \<in> set (trace (snd (run unset scripted (handshake_fails_script, wrapping_exits))))
   \<and> fst (run unset scripted (handshake_fails_script, wrapping_exits))
       = Inl (ExceptionGroup group_message
                [ExceptionGroup group_message [SdkError ''handshake refused'']])
   \<and> fst (run unset scripted (handshake_fails_script, wrapping_exits))
       \<noteq> Inl (SdkError ''handshake refused'')"
  by (simp add: handshake_wrapped_run)

text \<open>
  C5, amended: the driver neither catches nor retries an exception raised by the SDK at
  the connection, at the opening of the session, at the handshake, at the tool listing or
  at a tool call. The request that raised is the last request of the run and occurs once
  in the trace, and the exception is given as it was raised to the exit of the innermost
  context manager that was entered, or leaves \<open>main\<close> as it was raised when none was.
  What leaves \<open>main\<close> is then what the exits make of it: it is the exception as it was
  raised whenever every exit lets it go on.
\<close>

theorem sdk_error_not_handled:
  "ev \<in> set (trace (snd (run environ m w))) \<Longrightarrow> sdk_failure ev = Some e \<Longrightarrow>
     last (exchanges (trace (snd (run environ m w)))) = ev
     \<and> count_list (trace (snd (run environ m w))) ev = 1
     \<and> (case filter is_release (trace (snd (run environ m w))) of
           [] \<Rightarrow> fst (run environ m w) = Inl e
         | release # later \<Rightarrow> handed release = Some e)
     \<and> (exits_hand_on (trace (snd (run environ m w))) \<longrightarrow> fst (run environ m w) = Inl e)"
  apply (cases environ m w rule: run_cases)
  apply (simp_all add: observers split del: if_split)
  apply (elim disjE; simp)+
  done

theorem sdk_error_not_handled_witness:
  "Initialize (Some (SdkError ''handshake refused''))
     \<in> set (trace (snd (run unset scripted (handshake_fails_script, []))))
   \<and> sdk_failure (Initialize (Some (SdkError ''handshake refused'')))
       = Some (SdkError ''handshake refused'')
   \<and> exits_hand_on (trace (snd (run unset scripted (handshake_fails_script, []))))
   \<and> last (exchanges (trace (snd (run unset scripted (handshake_fails_script, [])))))
       = Initialize (Some (SdkError ''handshake refused''))
   \<and> fst (run unset scripted (handshake_fails_script, []))
       = Inl (SdkError ''handshake refused'')"
proof -
  have h: "Initialize (Some (SdkError ''handshake refused''))
             \<in> set (trace (snd (run unset scripted (handshake_fails_script, []))))"
    by (simp add: handshake_fails_run)
  have f: "sdk_failure (Initialize (Some (SdkError ''handshake refused'')))
             = Some (SdkError ''handshake refused'')"
    by simp
  have x: "exits_hand_on (trace (snd (run unset scripted (handshake_fails_script, []))))"
    by (simp add: handshake_fails_run exits_hand_on_def)
  from sdk_error_not_handled [OF h f] h f x show ?thesis by blast
qed

subsection \<open>The tool listing\<close>

lemma split_lines_line:
  "CHR 0x0A \<notin> set l \<Longrightarrow> split_lines acc (l @ CHR 0x0A # rest) = (acc @ l) # split_lines [] rest"
  by (induction l arbitrary: acc) auto

lemma lines_of_line:
  "single_line l \<Longrightarrow> lines_of (l @ CHR 0x0A # rest) = l # lines_of rest"
  by (simp add: lines_of_def single_line_def split_lines_line)

lemma lines_of_lines:
  "list_all single_line ls \<Longrightarrow>
     lines_of (concat (map (\<lambda>l. l @ [CHR 0x0A]) ls) @ rest) = ls @ lines_of rest"
  by (induction ls) (simp_all add: lines_of_line)

lemma single_line_tool_line:
  "single_line (name t) \<Longrightarrow> single_line (description t) \<Longrightarrow> single_line (tool_line t)"
  by (simp add: single_line_def tool_line_def)

lemma single_line_header: "single_line tools_header"
  by (simp add: single_line_def tools_header_def)

lemma lines_of_listing:
  assumes "list_all (\<lambda>t. single_line (name t) \<and> single_line (description t)) (tools r)"
  shows "lines_of (listing_output r) = tools_header # map tool_line (tools r) @ [[]]"
proof -
  have a: "list_all single_line (map tool_line (tools r))"
    using assms by (simp add: list_all_iff single_line_tool_line)
  have b: "concat (map (\<lambda>t. tool_line t @ [CHR 0x0A]) (tools r))
             = concat (map (\<lambda>l. l @ [CHR 0x0A]) (map tool_line (tools r)))"
    by (simp add: comp_def)
  have c: "lines_of [CHR 0x0A] = [[]]"
    by (simp add: lines_of_def)
  show ?thesis
    unfolding listing_output_def b
    using lines_of_line [OF single_line_header] lines_of_lines [OF a, of "[CHR 0x0A]"] c
    by simp
qed

text \<open>
  C6, as the spec states it, fails: a name or a description with a line feed in it spreads
  the tool over several lines. Here one tool takes two lines, and no line of the output is
  the line of the tool.
\<close>

theorem two_line_tool_counterexample:
  "lines_of (printed_by (list_step scripted) two_line_state)
     = [tools_header, ''  - t: a'', ''b'', []]
   \<and> tool_line two_line_tool \<notin> set (lines_of (printed_by (list_step scripted) two_line_state))"
  by (simp add: list_step_eq printed_by_def listing_output_def two_line_state_def scripted_def
        two_line_tool_def tool_line_def lines_of_def tools_header_def)

text \<open>
  C6, amended: for every tool list that the SDK returns, the empty one included, the
  listing step does not fail and writes the header, then for each tool in order its name
  and description, then an empty line. When no name and no description contains a line
  feed, these are exactly one header line, one line for each tool, and the empty line.
\<close>

theorem listing_prints_each_tool:
  "list_tools m (world s) = (Inr r, w') \<Longrightarrow>
     fst (list_step m s) = Inr ()
     \<and> printed_by (list_step m) s
         = tools_header @ [CHR 0x0A]
             @ concat (map (\<lambda>t. tool_line t @ [CHR 0x0A]) (tools r)) @ [CHR 0x0A]
     \<and> (list_all (\<lambda>t. single_line (name t) \<and> single_line (description t)) (tools r)
          \<longrightarrow> lines_of (printed_by (list_step m) s)
                = tools_header # map tool_line (tools r) @ [[]])"
  using lines_of_listing [of r]
  by (simp add: list_step_eq printed_by_def listing_output_def)

theorem listing_prints_each_tool_witness:
  "list_tools scripted (world canned_listing_state) = (Inr canned_tools, ([], []))
   \<and> list_all (\<lambda>t. single_line (name t) \<and> single_line (description t)) (tools canned_tools)
   \<and> fst (list_step scripted canned_listing_state) = Inr ()
   \<and> lines_of (printed_by (list_step scripted) canned_listing_state)
       = [tools_header, ''  - get_balance: x'', []]"
proof -
  have h: "list_tools scripted (world canned_listing_state) = (Inr canned_tools, ([], []))"
    by (simp add: scripted_def canned_listing_state_def)
  have l: "list_all (\<lambda>t. single_line (name t) \<and> single_line (description t))
             (tools canned_tools)"
    by (simp add: canned_tools_def single_line_def)
  have e: "tools_header # map tool_line (tools canned_tools) @ [[]]
             = [tools_header, ''  - get_balance: x'', []]"
    by (simp add: canned_tools_def tool_line_def)
  from listing_prints_each_tool [OF h] l
  have "lines_of (printed_by (list_step scripted) canned_listing_state)
          = tools_header # map tool_line (tools canned_tools) @ [[]]"
    by blast
  then have r: "lines_of (printed_by (list_step scripted) canned_listing_state)
                  = [tools_header, ''  - get_balance: x'', []]"
    by (simp only: e)
  from listing_prints_each_tool [OF h] have f: "fst (list_step scripted canned_listing_state) = Inr ()"
    by blast
  from h l f r show ?thesis by blast
qed

subsection \<open>The end-to-end scenario\<close>

lemma canned_run:
  "run unset canned () =
     (Inr (),
      \<lparr>world = (),
       trace = [Connect (make_server_params unset) None, OpenSession None,
                Initialize None, ListTools (Inr canned_tools),
                CallTool ''get_balance'' balance_arguments
                  (Inr \<lparr>content = [TextContent ''1.5 ETH'']\<rparr>),
                CallTool ''get_token_price'' price_arguments
                  (Inr \<lparr>content = [TextContent ''7.23 USD'']\<rparr>),
                CallTool ''swap_tokens'' swap_arguments
                  (Inr \<lparr>content = [TextContent ''ok'']\<rparr>),
                CloseSession None Falsy, CloseTransport None Falsy],
       stdout = connected_message @ [CHR 0x0A] @ listing_output canned_tools
                  @ balance_label @ [CHR 0x0A] @ result_output (TextContent ''1.5 ETH'')
                  @ price_label @ [CHR 0x0A] @ result_output (TextContent ''7.23 USD'')
                  @ swap_label @ [CHR 0x0A] @ result_output (TextContent ''ok'')\<rparr>)"
  by (simp add: run_unfold canned_def canned_text_def)

lemma canned_output_lines:
  "lines_of (connected_message @ [CHR 0x0A] @ listing_output canned_tools
       @ balance_label @ [CHR 0x0A] @ result_output (TextContent ''1.5 ETH'')
       @ price_label @ [CHR 0x0A] @ result_output (TextContent ''7.23 USD'')
       @ swap_label @ [CHR 0x0A] @ result_output (TextContent ''ok''))
     = [ [CHR 0xE2, CHR 0x9C, CHR 0x85] @ '' Connected to Ethereum Trading MCP Server'', [],
         tools_header, ''  - get_balance: x'', [],
         balance_label, ''Result: 1.5 ETH'', [],
         price_label, ''Result: 7.23 USD'', [],
         swap_label, ''Result: ok'', [] ]"
  by (simp add: lines_of_def connected_message_def listing_output_def canned_tools_def
        tool_line_def tools_header_def balance_label_def price_label_def swap_label_def
        result_output_def)

text \<open>
  C8: in a run where the SDK returns the tool list of the one tool \<open>get_balance\<close> with
  description \<open>x\<close> and the three calls return results whose first content items are
  \<open>1.5 ETH\<close>, \<open>7.23 USD\<close> and \<open>ok\<close>, the session block ends without an exception and the
  output is these lines: each of the three texts on a result line, in that order, each
  right after the label line of its call. The run completes when the exits of the
  context managers let the outcome go on.
\<close>

theorem canned_scenario_output:
  "responses_of (trace (snd (run environ m w))) = canned_responses more1 more2 more3 \<Longrightarrow>
     (\<exists>a. CloseSession None a \<in> set (trace (snd (run environ m w))))
     \<and> lines_of (stdout (snd (run environ m w)))
         = [ [CHR 0xE2, CHR 0x9C, CHR 0x85] @ '' Connected to Ethereum Trading MCP Server'', [],
             tools_header, ''  - get_balance: x'', [],
             balance_label, ''Result: 1.5 ETH'', [],
             price_label, ''Result: 7.23 USD'', [],
             swap_label, ''Result: ok'', [] ]
     \<and> (exits_hand_on (trace (snd (run environ m w))) \<longrightarrow> fst (run environ m w) = Inr ())"
proof (cases environ m w rule: run_cases)
  case (completed tl r1 i1 c1 r2 i2 c2 r3 i3 c3 a1 a2)
  assume a: "responses_of (trace (snd (run environ m w))) = canned_responses more1 more2 more3"
  from a completed have "tl = canned_tools" "i1 = TextContent ''1.5 ETH''"
    "i2 = TextContent ''7.23 USD''" "i3 = TextContent ''ok''"
    by (auto simp: canned_responses_def)
  with completed canned_output_lines show ?thesis by (simp add: exits_hand_on_def)
qed (simp_all add: canned_responses_def)

theorem canned_scenario_output_witness:
  "responses_of (trace (snd (run unset scripted (canned_responses [] [] [], []))))
     = canned_responses [] [] []
   \<and> exits_hand_on (trace (snd (run unset scripted (canned_responses [] [] [], []))))
   \<and> fst (run unset scripted (canned_responses [] [] [], [])) = Inr ()
   \<and> lines_of (stdout (snd (run unset scripted (canned_responses [] [] [], []))))
       = [ [CHR 0xE2, CHR 0x9C, CHR 0x85] @ '' Connected to Ethereum Trading MCP Server'', [],
           tools_header, ''  - get_balance: x'', [],
           balance_label, ''Result: 1.5 ETH'', [],
           price_label, ''Result: 7.23 USD'', [],
           swap_label, ''Result: ok'', [] ]"
proof -
  have h: "responses_of (trace (snd (run unset scripted (canned_responses [] [] [], []))))
             = canned_responses [] [] []"
    by (simp add: canned_script_run, simp add: canned_responses_def)
  have x: "exits_hand_on (trace (snd (run unset scripted (canned_responses [] [] [], []))))"
    by (simp add: canned_script_run exits_hand_on_def)
  from canned_scenario_output [OF h] h x show ?thesis by blast
qed

subsection \<open>A result without content\<close>

text \<open>
  C9: printing the result of a call succeeds exactly when the content list of the result
  is not empty. On an empty content list it raises \<open>IndexError\<close> and leaves the state as
  it was, so nothing is written; and in a run in which a call returns such a result, that
  call is the last request and \<open>IndexError\<close> is what the exit of the session is given. The
  run ends with \<open>IndexError\<close> when the exits let it go on.
\<close>

theorem empty_content_raises:
  "(fst (print_result r s) = Inr ()) = (content r \<noteq> [])
   \<and> (content r = [] \<longrightarrow> print_result r s = (Inl IndexError, s))
   \<and> (CallTool nm a (Inr r) \<in> set (trace (snd (run environ m w))) \<and> content r = []
        \<longrightarrow> last (exchanges (trace (snd (run environ m w)))) = CallTool nm a (Inr r)
          \<and> (\<exists>x. CloseSession (Some IndexError) x \<in> set (trace (snd (run environ m w))))
          \<and> (exits_hand_on (trace (snd (run environ m w)))
               \<longrightarrow> fst (run environ m w) = Inl IndexError))"
proof -
  have p: "(fst (print_result r s) = Inr ()) = (content r \<noteq> [])
             \<and> (content r = [] \<longrightarrow> print_result r s = (Inl IndexError, s))"
    by (simp add: print_result_def raise_def print_def split: list.splits)
  have q: "CallTool nm a (Inr r) \<in> set (trace (snd (run environ m w))) \<and> content r = []
        \<longrightarrow> last (exchanges (trace (snd (run environ m w)))) = CallTool nm a (Inr r)
          \<and> (\<exists>x. CloseSession (Some IndexError) x \<in> set (trace (snd (run environ m w))))
          \<and> (exits_hand_on (trace (snd (run environ m w)))
               \<longrightarrow> fst (run environ m w) = Inl IndexError)"
    by (cases environ m w rule: run_cases) (auto simp: observers)
  from p q show ?thesis by blast
qed

theorem empty_content_raises_witness:
  "content \<lparr>content = []\<rparr> = []
   \<and> print_result \<lparr>content = []\<rparr> canned_listing_state = (Inl IndexError, canned_listing_state)
   \<and> CallTool ''get_balance'' balance_arguments (Inr \<lparr>content = []\<rparr>)
       \<in> set (trace (snd (run unset scripted (empty_balance_script, []))))
   \<and> exits_hand_on (trace (snd (run unset scripted (empty_balance_script, []))))
   \<and> fst (run unset scripted (empty_balance_script, [])) = Inl IndexError
   \<and> last (exchanges (trace (snd (run unset scripted (empty_balance_script, [])))))
       = CallTool ''get_balance'' balance_arguments (Inr \<lparr>content = []\<rparr>)"
proof -
  have h: "CallTool ''get_balance'' balance_arguments (Inr \<lparr>content = []\<rparr>)
             \<in> set (trace (snd (run unset scripted (empty_balance_script, []))))"
    by (simp add: empty_balance_run)
  have c: "content \<lparr>content = []\<rparr> = []"
    by simp
  have x: "exits_hand_on (trace (snd (run unset scripted (empty_balance_script, []))))"
    by (simp add: empty_balance_run exits_hand_on_def)
  from empty_content_raises
         [of "\<lparr>content = []\<rparr>" canned_listing_state "''get_balance''" balance_arguments
             unset scripted "(empty_balance_script, [])"]
       h c x
  show ?thesis by blast
qed

subsection \<open>Determinism\<close>

text \<open>
  Replaying the answers of a run through the scripted SDK gives the same requests and the
  same output; replaying the answers of its exits too gives the same run.
\<close>

lemma replay_requests:
  "exchanges (trace (snd (run environ scripted (responses_of (trace (snd (run environ m w))), []))))
     = exchanges (trace (snd (run environ m w)))
   \<and> stdout (snd (run environ scripted (responses_of (trace (snd (run environ m w))), [])))
     = stdout (snd (run environ m w))"
  by (cases environ m w rule: run_cases) (simp_all add: run_unfold scripted_def observers)

lemma replay_exits:
  "fst (run environ scripted
          (responses_of (trace (snd (run environ m w))),
           exit_answers (trace (snd (run environ m w)))))
     = fst (run environ m w)
   \<and> trace (snd (run environ scripted
          (responses_of (trace (snd (run environ m w))),
           exit_answers (trace (snd (run environ m w))))))
     = trace (snd (run environ m w))"
  by (cases environ m w rule: run_cases) (simp_all add: run_unfold scripted_def)

lemma make_server_params_cong:
  "environ1 ''ETH_RPC_URL'' = environ2 ''ETH_RPC_URL'' \<Longrightarrow>
   environ1 ''PRIVATE_KEY'' = environ2 ''PRIVATE_KEY'' \<Longrightarrow>
     make_server_params environ1 = make_server_params environ2"
  by (simp add: make_server_params_def getenv_def)

lemma run_cong:
  "make_server_params environ1 = make_server_params environ2 \<Longrightarrow>
     run environ1 m w = run environ2 m w"
  by (simp add: run_def main_def)

text \<open>
  C10: two runs, with any two implementations of the SDK, that read the same values of
  the environment variables and get the same sequence of answers to their requests (the
  results of connecting and of the handshake, the tool list, the results of the calls)
  build the same launch configuration, issue the same requests and print the same
  output. When the exits of the context managers answer the same too, the two traces are
  equal, releases included, and the two runs end with the same outcome.
\<close>

theorem run_deterministic:
  fixes m1 :: "'a sdk" and m2 :: "'b sdk"
  assumes "environ1 ''ETH_RPC_URL'' = environ2 ''ETH_RPC_URL''"
    and "environ1 ''PRIVATE_KEY'' = environ2 ''PRIVATE_KEY''"
    and "responses_of (trace (snd (run environ1 m1 w1)))
           = responses_of (trace (snd (run environ2 m2 w2)))"
  shows "make_server_params environ1 = make_server_params environ2
     \<and> exchanges (trace (snd (run environ1 m1 w1)))
         = exchanges (trace (snd (run environ2 m2 w2)))
     \<and> stdout (snd (run environ1 m1 w1)) = stdout (snd (run environ2 m2 w2))
     \<and> (exit_answers (trace (snd (run environ1 m1 w1)))
           = exit_answers (trace (snd (run environ2 m2 w2)))
         \<longrightarrow> trace (snd (run environ1 m1 w1)) = trace (snd (run environ2 m2 w2))
           \<and> fst (run environ1 m1 w1) = fst (run environ2 m2 w2))"
proof -
  let ?rs1 = "responses_of (trace (snd (run environ1 m1 w1)))"
  let ?rs2 = "responses_of (trace (snd (run environ2 m2 w2)))"
  let ?xs1 = "exit_answers (trace (snd (run environ1 m1 w1)))"
  let ?xs2 = "exit_answers (trace (snd (run environ2 m2 w2)))"
  have p: "make_server_params environ1 = make_server_params environ2"
    using assms(1,2) by (rule make_server_params_cong)
  have "run environ1 scripted (?rs1, []) = run environ2 scripted (?rs1, [])"
    using p by (rule run_cong)
  then have e: "run environ1 scripted (?rs1, []) = run environ2 scripted (?rs2, [])"
    by (simp only: assms(3))
  have x: "exchanges (trace (snd (run environ1 m1 w1)))
             = exchanges (trace (snd (run environ2 m2 w2)))"
    using replay_requests [of environ1 m1 w1] replay_requests [of environ2 m2 w2]
    by (simp only: e)
  have s: "stdout (snd (run environ1 m1 w1)) = stdout (snd (run environ2 m2 w2))"
    using replay_requests [of environ1 m1 w1] replay_requests [of environ2 m2 w2]
    by (simp only: e)
  have r: "trace (snd (run environ1 m1 w1)) = trace (snd (run environ2 m2 w2))
             \<and> fst (run environ1 m1 w1) = fst (run environ2 m2 w2)"
    if y: "?xs1 = ?xs2"
  proof -
    have "run environ1 scripted (?rs1, ?xs1) = run environ2 scripted (?rs1, ?xs1)"
      using p by (rule run_cong)
    then have g: "run environ1 scripted (?rs1, ?xs1) = run environ2 scripted (?rs2, ?xs2)"
      by (simp only: assms(3) y)
    show ?thesis
      using replay_exits [of environ1 m1 w1] replay_exits [of environ2 m2 w2]
      by (simp only: g)
  qed
  from p x s r show ?thesis by blast
qed

theorem run_deterministic_witness:
  "unset ''ETH_RPC_URL'' = unset ''ETH_RPC_URL''
   \<and> responses_of (trace (snd (run unset scripted (canned_responses [] [] [], []))))
       = responses_of (trace (snd (run unset canned ())))
   \<and> exit_answers (trace (snd (run unset scripted (canned_responses [] [] [], []))))
       = exit_answers (trace (snd (run unset canned ())))
   \<and> trace (snd (run unset scripted (canned_responses [] [] [], [])))
       = trace (snd (run unset canned ()))
   \<and> stdout (snd (run unset scripted (canned_responses [] [] [], [])))
       = stdout (snd (run unset canned ()))
   \<and> fst (run unset scripted (canned_responses [] [] [], [])) = fst (run unset canned ())"
proof -
  have h: "responses_of (trace (snd (run unset scripted (canned_responses [] [] [], []))))
             = responses_of (trace (snd (run unset canned ())))"
    by (simp add: canned_script_run canned_run)
  have x: "exit_answers (trace (snd (run unset scripted (canned_responses [] [] [], []))))
             = exit_answers (trace (snd (run unset canned ())))"
    by (simp add: canned_script_run canned_run)
  from run_deterministic [OF refl refl h] h x show ?thesis by blast
qed

end
